theory Spec2Isabelle
  imports Main "HOL-Library.Multiset" "HOL-Library.Char_ord" "HOL-Library.List_Lexorder"
begin

section \<open>Data model\<close>

text \<open>
  The program is a script over a pandas table. A table is its list of column names together
  with its rows; reading a column that the table does not have raises \<open>KeyError\<close>. The
  script also reads Python names that are bound on one path only (\<open>NameError\<close>) and sorts
  the distinct values of a column for its selection widgets (\<open>TypeError\<close> when text and the
  missing value NaN are compared).

  The columns the script reads:
  \<^item> \<open>Channel\<close>, \<open>Product_Type\<close>, \<open>Causale\<close>, \<open>Canale\<close>: the columns of these names;
  \<^item> \<open>Out_of_Scope_Filter\<close>: the column \<^verbatim>\<open>'Out of Scope \nFilter'\<close>;
  \<^item> \<open>Cluster_Check\<close>: the column \<^verbatim>\<open>' Cluster Check '\<close>;
  \<^item> \<open>Cod_CRM\<close>: the column \<^verbatim>\<open>'Cod CRM'\<close>, the pharmacy identifier;
  \<^item> \<open>Tier\<close>: the column \<^verbatim>\<open>'tier'\<close>; \<open>Brand\<close>: the column \<^verbatim>\<open>'Brand'\<close>;
  \<^item> \<open>Net_Price_1_Revenue\<close>: the column \<^verbatim>\<open>'Net Price 1 Revenue (Imponibile)'\<close>.
\<close>

datatype column = Channel | Product_Type | Causale | Canale | Out_of_Scope_Filter
  | Cluster_Check | Cod_CRM | Tier | Brand | Net_Price_1_Revenue

datatype error = KeyError column | NameError string | TypeError column

text \<open>
  One row of the uploaded table. A cell is \<open>None\<close> where pandas holds NaN (an empty cell of
  the file). Amounts are exact numbers (integers, say cents): floating-point rounding is
  not part of this model. Columns are of plain (not categorical) type. A row carries a
  cell for each of the ten columns; the cells of a column that is not among the table's
  \<open>columns\<close> are not part of the table, and no definition below reads a cell before it has
  checked that the table has the column.
\<close>

record row =
  c_channel :: "string option"
  c_product_type :: "string option"
  c_causale :: "string option"
  c_canale :: "string option"
  c_scope :: "string option"
  c_cluster_check :: "string option"
  c_cod_crm :: "int option"
  c_tier :: "string option"
  c_brand :: "string option"
  c_revenue :: "int option"

record table =
  columns :: "column list"
  rows :: "row list"

text \<open>The four sidebar inputs.\<close>

record thresholds =
  silver_min :: int
  gold_min :: int
  gold_max :: int
  platinum_min :: int

datatype category = Silver | Gold | Platinum | Unassigned

text \<open>\<open>all_pharmacy_revenue\<close>: one row per pharmacy; the classifier adds a column to it.\<close>

record pharmacy_revenue =
  cod_crm :: int
  total_net1rev_imponibile :: int

record classified_revenue = pharmacy_revenue +
  partnership_category :: category

section \<open>Classifier (app.py 99-115, simulation\_placement\_thresholdcategory.py 64-82)\<close>

text \<open>
  \<^verbatim>\<open>df.loc[cond, 'partnership_category'] = c\<close> overwrites the category of every row whose
  total revenue satisfies the condition and leaves the other rows as they are.
\<close>

definition loc_assign ::
  "(int \<Rightarrow> bool) \<Rightarrow> category \<Rightarrow> classified_revenue list \<Rightarrow> classified_revenue list" where
  "loc_assign cond c df =
     map (\<lambda>p. if cond (total_net1rev_imponibile p) then p\<lparr>partnership_category := c\<rparr> else p) df"

definition assign_categories :: "thresholds \<Rightarrow> pharmacy_revenue list \<Rightarrow> classified_revenue list" where
  "assign_categories thr apr =
     (let d0 = map (\<lambda>p. \<lparr>cod_crm = cod_crm p,
                          total_net1rev_imponibile = total_net1rev_imponibile p,
                          partnership_category = Unassigned\<rparr>) apr;
          d1 = loc_assign (\<lambda>v. v > silver_min thr) Silver d0;
          d2 = loc_assign (\<lambda>v. v \<ge> gold_min thr \<and> v < gold_max thr) Gold d1;
          d3 = loc_assign (\<lambda>v. v \<ge> platinum_min thr) Platinum d2
      in d3)"

text \<open>
  The classification as the specification words it: the rules 2, 3, 4 as an ordered list,
  and the category of the last rule that matches (Unassigned when none does).
\<close>

definition ordered_rules :: "thresholds \<Rightarrow> ((int \<Rightarrow> bool) \<times> category) list" where
  "ordered_rules thr =
     [(\<lambda>v. v > silver_min thr, Silver),
      (\<lambda>v. gold_min thr \<le> v \<and> v < gold_max thr, Gold),
      (\<lambda>v. v \<ge> platinum_min thr, Platinum)]"

definition last_matching_rule :: "thresholds \<Rightarrow> int \<Rightarrow> category" where
  "last_matching_rule thr v =
     (case filter (\<lambda>rl. fst rl v) (ordered_rules thr) of
        [] \<Rightarrow> Unassigned
      | m # ms \<Rightarrow> snd (last (m # ms)))"

text \<open>
  The same as a single pass over the ordered rules: start from Unassigned, and let every
  rule that matches overwrite the category.
\<close>

definition overwrite_in_order :: "thresholds \<Rightarrow> int \<Rightarrow> category" where
  "overwrite_in_order thr v =
     foldl (\<lambda>c rl. if fst rl v then snd rl else c) Unassigned (ordered_rules thr)"

section \<open>Record Filter (app.py 31-56 and 68-73)\<close>

text \<open>
  What the user picks in each of the five selection widgets when the widget is shown
  (\<^verbatim>\<open>st.multiselect\<close> returns the list of picked values).
\<close>

record selection =
  pick_channel :: "string option list"
  pick_product_type :: "string option list"
  pick_causale :: "string option list"
  pick_canale :: "string option list"
  pick_scope :: "string option list"

text \<open>
  The Python names the widgets bind. Line 32 binds \<open>channels\<close> and \<open>products\<close> to the empty
  list before the widgets; \<open>causale\<close>, \<open>canale\<close> and \<open>scope_filter\<close> are bound only inside
  the \<^verbatim>\<open>if ... in df.columns\<close> branch of their widget, so they are \<open>None\<close> (unbound)
  when the column is absent. The script is run afresh for every interaction, so no name
  survives from an earlier run.
\<close>

record filter_vars =
  channels :: "string option list"
  products :: "string option list"
  causale :: "string option list option"
  canale :: "string option list option"
  scope_filter :: "string option list option"

text \<open>
  \<^verbatim>\<open>sorted(df[c].unique())\<close> compares the distinct values of the column; comparing NaN
  (a float) with text raises \<open>TypeError\<close>.
\<close>

definition unsortable :: "string option list \<Rightarrow> bool" where
  "unsortable vs = (None \<in> set vs \<and> (\<exists>v \<in> set vs. v \<noteq> None))"

definition bind_err :: "error + 'a \<Rightarrow> ('a \<Rightarrow> error + 'b) \<Rightarrow> error + 'b" where
  "bind_err m f = (case m of Inl e \<Rightarrow> Inl e | Inr x \<Rightarrow> f x)"

text \<open>
  One widget (lines 33-42): skipped when the column is absent (the result is \<open>None\<close>),
  otherwise it sorts the column's distinct values and returns the user's picks.
\<close>

definition multiselect ::
  "table \<Rightarrow> column \<Rightarrow> (row \<Rightarrow> string option) \<Rightarrow> string option list
     \<Rightarrow> error + string option list option" where
  "multiselect df c cell picked =
     (if c \<in> set (columns df)
      then (if unsortable (map cell (rows df)) then Inl (TypeError c) else Inr (Some picked))
      else Inr None)"

definition filters :: "selection \<Rightarrow> table \<Rightarrow> error + filter_vars" where
  "filters ui df =
     bind_err (multiselect df Channel c_channel (pick_channel ui)) (\<lambda>w1.
     bind_err (multiselect df Product_Type c_product_type (pick_product_type ui)) (\<lambda>w2.
     bind_err (multiselect df Causale c_causale (pick_causale ui)) (\<lambda>w3.
     bind_err (multiselect df Canale c_canale (pick_canale ui)) (\<lambda>w4.
     bind_err (multiselect df Out_of_Scope_Filter c_scope (pick_scope ui)) (\<lambda>w5.
       Inr \<lparr>channels = (case w1 of None \<Rightarrow> [] | Some xs \<Rightarrow> xs),
            products = (case w2 of None \<Rightarrow> [] | Some xs \<Rightarrow> xs),
            causale = w3, canale = w4, scope_filter = w5\<rparr>)))))"

text \<open>
  \<^verbatim>\<open>df[df[c].isin(values)]\<close>: the rows whose cell in column \<open>c\<close> is one of the values.
\<close>

definition isin_rows ::
  "column \<Rightarrow> (row \<Rightarrow> string option) \<Rightarrow> string option list \<Rightarrow> table \<Rightarrow> error + table" where
  "isin_rows c cell vals df =
     (if c \<in> set (columns df)
      then Inr (df\<lparr>rows := filter (\<lambda>r. cell r \<in> set vals) (rows df)\<rparr>)
      else Inl (KeyError c))"

text \<open>
  One \<^verbatim>\<open>if name: df_filtered = ...\<close> of lines 47-56: reading an unbound name raises
  \<open>NameError\<close>; an empty list is false and leaves the table as it is.
\<close>

definition apply_filter ::
  "string \<Rightarrow> string option list option \<Rightarrow> column \<Rightarrow> (row \<Rightarrow> string option)
     \<Rightarrow> table \<Rightarrow> error + table" where
  "apply_filter name bound c cell df =
     (case bound of
        None \<Rightarrow> Inl (NameError name)
      | Some vals \<Rightarrow> (if vals \<noteq> [] then isin_rows c cell vals df else Inr df))"

definition df_filtered :: "filter_vars \<Rightarrow> table \<Rightarrow> error + table" where
  "df_filtered fv df =
     bind_err (apply_filter ''channels'' (Some (channels fv)) Channel c_channel df) (\<lambda>d1.
     bind_err (apply_filter ''products'' (Some (products fv)) Product_Type c_product_type d1) (\<lambda>d2.
     bind_err (apply_filter ''causale'' (causale fv) Causale c_causale d2) (\<lambda>d3.
     bind_err (apply_filter ''canale'' (canale fv) Canale c_canale d3) (\<lambda>d4.
       apply_filter ''scope_filter'' (scope_filter fv) Out_of_Scope_Filter c_scope d4))))"

text \<open>The fixed eligibility rule of lines 68-73, on one row.\<close>

definition eligible :: "row \<Rightarrow> bool" where
  "eligible r =
     (c_channel r = Some ''Independent Pharmacies'' \<and>
      c_causale r = Some ''Vendita'' \<and>
      c_scope r = Some ''In scope'' \<and>
      c_cluster_check r \<in> set [Some '' 1.EL '', Some '' 2.L ''])"

text \<open>
  Lines 68-73 read the four columns from left to right; the first one absent raises
  \<open>KeyError\<close>.
\<close>

definition merged_pharmacies :: "table \<Rightarrow> error + table" where
  "merged_pharmacies d =
     (if Channel \<notin> set (columns d) then Inl (KeyError Channel)
      else if Causale \<notin> set (columns d) then Inl (KeyError Causale)
      else if Out_of_Scope_Filter \<notin> set (columns d) then Inl (KeyError Out_of_Scope_Filter)
      else if Cluster_Check \<notin> set (columns d) then Inl (KeyError Cluster_Check)
      else Inr (d\<lparr>rows := filter eligible (rows d)\<rparr>))"

text \<open>The Record Filter as a whole: widgets, optional filters, fixed rule.\<close>

definition record_filter :: "selection \<Rightarrow> table \<Rightarrow> error + table" where
  "record_filter ui df =
     bind_err (filters ui df) (\<lambda>fv.
     bind_err (df_filtered fv df) (\<lambda>d. merged_pharmacies d))"

section \<open>Aggregator (app.py 76-96)\<close>

text \<open>
  \<^verbatim>\<open>groupby('Cod CRM')\<close> makes one group per distinct identifier, in ascending order of
  the identifier; rows whose identifier is NaN belong to no group.
\<close>

definition groupby_keys :: "row list \<Rightarrow> int list" where
  "groupby_keys rs = sort (remdups (List.map_filter c_cod_crm rs))"

text \<open>\<^verbatim>\<open>.sum()\<close> skips NaN cells; the sum of no cell is 0.\<close>

definition nan_sum :: "int option list \<Rightarrow> int" where
  "nan_sum vs = sum_list (List.map_filter (\<lambda>v. v) vs)"

definition groupby_sum :: "row list \<Rightarrow> (int \<times> int) list" where
  "groupby_sum rs =
     map (\<lambda>k. (k, nan_sum (map c_revenue (filter (\<lambda>r. c_cod_crm r = Some k) rs))))
       (groupby_keys rs)"

definition all_pharmacy_revenue :: "row list \<Rightarrow> pharmacy_revenue list" where
  "all_pharmacy_revenue rs =
     map (\<lambda>ks. \<lparr>cod_crm = fst ks, total_net1rev_imponibile = snd ks\<rparr>) (groupby_sum rs)"

definition rev_tier23 :: "row list \<Rightarrow> (int \<times> int) list" where
  "rev_tier23 rs =
     groupby_sum (filter (\<lambda>r. c_tier r \<in> set [Some ''Tier 2'', Some ''Tier 3'']) rs)"

text \<open>\<^verbatim>\<open>.nunique()\<close> counts the distinct values that are not NaN.\<close>

definition nunique :: "string option list \<Rightarrow> nat" where
  "nunique vs = length (remdups (List.map_filter (\<lambda>v. v) vs))"

text \<open>
  \<^verbatim>\<open>groupby(['Cod CRM', 'tier'])['Brand'].nunique()\<close>: one entry per pair of identifier
  and tier label that occurs in a row (neither being NaN), in ascending order.
\<close>

definition tier_counts :: "row list \<Rightarrow> (int \<times> string \<times> nat) list" where
  "tier_counts rs =
     [(k, t, nunique (map c_brand (filter (\<lambda>r. c_cod_crm r = Some k \<and> c_tier r = Some t) rs))).
        k \<leftarrow> groupby_keys rs,
        t \<leftarrow> sort (remdups (List.map_filter c_tier rs)),
        \<exists>r \<in> set rs. c_cod_crm r = Some k \<and> c_tier r = Some t]"

text \<open>
  The pivot of \<open>tier_counts\<close>: its columns are the tier labels that occur, its rows the
  identifiers that occur with a label; a pair that does not occur is NaN and is then
  filled with 0.
\<close>

definition pivot_columns :: "(int \<times> string \<times> nat) list \<Rightarrow> string list" where
  "pivot_columns tc = sort (remdups (map (\<lambda>e. fst (snd e)) tc))"

definition fillna0 :: "nat option \<Rightarrow> nat" where
  "fillna0 v = (case v of None \<Rightarrow> 0 | Some n \<Rightarrow> n)"

definition tier_counts_pivot_use :: "row list \<Rightarrow> (int \<times> (string \<times> nat) list) list" where
  "tier_counts_pivot_use rs =
     (let tc = tier_counts rs in
      map (\<lambda>k. (k, map (\<lambda>t. (t, fillna0 (map_of (map (\<lambda>e. ((fst e, fst (snd e)), snd (snd e))) tc) (k, t))))
                     (pivot_columns tc)))
        (sort (remdups (map fst tc))))"

text \<open>
  One row of \<open>threshold_data\<close>: the pharmacy's row of \<open>all_pharmacy_revenue\<close>, one cell per
  tier column of the pivot, the tier 2/3 revenue, and the column "Tier 2 \& 3". A left merge
  keeps every row of its left table and gives NaN where the right table has no row for
  the identifier.
\<close>

record threshold_data_row = pharmacy_revenue +
  tier_cells :: "(string \<times> nat option) list"
  tier23_net1rev_imponibile :: "int option"
  tier_2_and_3 :: "nat option"

text \<open>\<^verbatim>\<open>threshold_data.get(t, 0)\<close>: the column when the table has it, the number 0 otherwise.\<close>

definition get_col :: "(string \<times> nat option) list \<Rightarrow> string \<Rightarrow> nat \<Rightarrow> nat option" where
  "get_col cells t d = (case map_of cells t of None \<Rightarrow> Some d | Some v \<Rightarrow> v)"

text \<open>Addition of cells: NaN plus anything is NaN.\<close>

definition nan_add :: "nat option \<Rightarrow> nat option \<Rightarrow> nat option" where
  "nan_add a b =
     (case a of None \<Rightarrow> None | Some x \<Rightarrow> (case b of None \<Rightarrow> None | Some y \<Rightarrow> Some (x + y)))"

definition merge_left_tiers ::
  "string list \<Rightarrow> (int \<times> (string \<times> nat) list) list \<Rightarrow> int \<Rightarrow> (string \<times> nat option) list" where
  "merge_left_tiers cols pv k =
     (case map_of pv k of
        None \<Rightarrow> map (\<lambda>t. (t, None)) cols
      | Some cells \<Rightarrow> map (\<lambda>tn. (fst tn, Some (snd tn))) cells)"

definition threshold_data :: "row list \<Rightarrow> threshold_data_row list" where
  "threshold_data rs =
     map (\<lambda>p.
        (let cells = merge_left_tiers (pivot_columns (tier_counts rs)) (tier_counts_pivot_use rs)
                       (cod_crm p)
         in \<lparr>cod_crm = cod_crm p,
             total_net1rev_imponibile = total_net1rev_imponibile p,
             tier_cells = cells,
             tier23_net1rev_imponibile = map_of (rev_tier23 rs) (cod_crm p),
             tier_2_and_3 = nan_add (get_col cells ''Tier 2'' 0) (get_col cells ''Tier 3'' 0)\<rparr>))
       (all_pharmacy_revenue rs)"

record aggregates =
  agg_all_pharmacy_revenue :: "pharmacy_revenue list"
  agg_threshold_data :: "threshold_data_row list"

text \<open>
  The Aggregator on the filtered table: the columns are read in the order of lines 77-88,
  and the first one absent raises \<open>KeyError\<close>.
\<close>

definition aggregator :: "table \<Rightarrow> error + aggregates" where
  "aggregator m =
     (if Cod_CRM \<notin> set (columns m) then Inl (KeyError Cod_CRM)
      else if Net_Price_1_Revenue \<notin> set (columns m) then Inl (KeyError Net_Price_1_Revenue)
      else if Tier \<notin> set (columns m) then Inl (KeyError Tier)
      else if Brand \<notin> set (columns m) then Inl (KeyError Brand)
      else Inr \<lparr>agg_all_pharmacy_revenue = all_pharmacy_revenue (rows m),
                agg_threshold_data = threshold_data (rows m)\<rparr>)"

section \<open>Table Builder (app.py 117-135)\<close>

text \<open>
  The category column is a categorical with the four categories in the order of line 99.
  Grouping by it makes one group per category, in that order, also for a category that no
  pharmacy has (the default of pandas before version 3, and what the specification
  describes: one row per category).
\<close>

definition category_order :: "category list" where
  "category_order = [Silver, Gold, Platinum, Unassigned]"

definition category_table :: "classified_revenue list \<Rightarrow> (category \<times> int list) list" where
  "category_table cl =
     map (\<lambda>c. (c, map cod_crm (filter (\<lambda>p. partnership_category p = c) cl))) category_order"

text \<open>
  \<^verbatim>\<open>pd.concat(category_series, axis=1)\<close>: one column per category, the shorter ones
  padded with NaN to the length of the longest.
\<close>

definition category_table_pivot ::
  "classified_revenue list \<Rightarrow> (category \<times> int option list) list" where
  "category_table_pivot cl =
     (let ct = category_table cl;
          n = foldr max (map (\<lambda>ci. length (snd ci)) ct) 0
      in map (\<lambda>ci. (fst ci, map Some (snd ci) @ replicate (n - length (snd ci)) None)) ct)"

datatype summary_label = Category category | Total_ex_Unassigned

record summary_row =
  partnership_label :: summary_label
  num_pharmacies :: nat
  total_revenue :: int

definition summary_groups :: "classified_revenue list \<Rightarrow> summary_row list" where
  "summary_groups cl =
     map (\<lambda>c. \<lparr>partnership_label = Category c,
               num_pharmacies = length (filter (\<lambda>p. partnership_category p = c) cl),
               total_revenue =
                 sum_list (map total_net1rev_imponibile
                            (filter (\<lambda>p. partnership_category p = c) cl))\<rparr>)
       category_order"

definition no_unassigned :: "summary_row list \<Rightarrow> summary_row list" where
  "no_unassigned st = filter (\<lambda>r. partnership_label r \<noteq> Category Unassigned) st"

definition total_row :: "summary_row list \<Rightarrow> summary_row" where
  "total_row st =
     \<lparr>partnership_label = Total_ex_Unassigned,
      num_pharmacies = sum_list (map num_pharmacies (no_unassigned st)),
      total_revenue = sum_list (map total_revenue (no_unassigned st))\<rparr>"

definition summary_table :: "classified_revenue list \<Rightarrow> summary_row list" where
  "summary_table cl = (let st = summary_groups cl in st @ [total_row st])"

section \<open>The whole computation\<close>

record outputs =
  out_all_pharmacy_revenue :: "classified_revenue list"
  out_threshold_data :: "threshold_data_row list"
  out_category_table_pivot :: "(category \<times> int option list) list"
  out_summary_table :: "summary_row list"

text \<open>Lines 76-135, from the filtered table on; both scripts share them.\<close>

definition engine :: "thresholds \<Rightarrow> table \<Rightarrow> error + outputs" where
  "engine thr m =
     bind_err (aggregator m) (\<lambda>a.
       (let cl = assign_categories thr (agg_all_pharmacy_revenue a)
        in Inr \<lparr>out_all_pharmacy_revenue = cl,
                out_threshold_data = agg_threshold_data a,
                out_category_table_pivot = category_table_pivot cl,
                out_summary_table = summary_table cl\<rparr>))"

text \<open>app.py: the optional filters, the fixed rule, then the engine.\<close>

definition compute :: "selection \<Rightarrow> thresholds \<Rightarrow> table \<Rightarrow> error + outputs" where
  "compute ui thr df = bind_err (record_filter ui df) (engine thr)"

text \<open>simulation\_placement\_thresholdcategory.py: the fixed rule on the uploaded table, then the engine.\<close>

definition simulation_compute :: "thresholds \<Rightarrow> table \<Rightarrow> error + outputs" where
  "simulation_compute thr df = bind_err (merged_pharmacies df) (engine thr)"

section \<open>The filtered record set as the specification words it\<close>

text \<open>
  The inclusion list supplied for a column: the user's picks where the widget is shown,
  none where the column is absent.
\<close>

definition supplied :: "table \<Rightarrow> column \<Rightarrow> string option list \<Rightarrow> string option list" where
  "supplied df c picked = (if c \<in> set (columns df) then picked else [])"

text \<open>A column with no supplied filter passes all values.\<close>

definition passes :: "string option list \<Rightarrow> string option \<Rightarrow> bool" where
  "passes vals v = (vals = [] \<or> v \<in> set vals)"

definition in_filtered_set :: "selection \<Rightarrow> table \<Rightarrow> row \<Rightarrow> bool" where
  "in_filtered_set ui df r =
     (passes (supplied df Channel (pick_channel ui)) (c_channel r) \<and>
      passes (supplied df Product_Type (pick_product_type ui)) (c_product_type r) \<and>
      passes (supplied df Causale (pick_causale ui)) (c_causale r) \<and>
      passes (supplied df Canale (pick_canale ui)) (c_canale r) \<and>
      passes (supplied df Out_of_Scope_Filter (pick_scope ui)) (c_scope r) \<and>
      c_channel r = Some ''Independent Pharmacies'' \<and>
      c_causale r = Some ''Vendita'' \<and>
      c_scope r = Some ''In scope'' \<and>
      (c_cluster_check r = Some '' 1.EL '' \<or> c_cluster_check r = Some '' 2.L ''))"

text \<open>
  The tables on which the Record Filter of app.py returns: the five columns it needs are
  there, and no widget column mixes text with NaN.
\<close>

definition filterable :: "table \<Rightarrow> bool" where
  "filterable df =
     (set [Channel, Causale, Canale, Out_of_Scope_Filter, Cluster_Check] \<subseteq> set (columns df) \<and>
      \<not> unsortable (map c_channel (rows df)) \<and>
      \<not> (Product_Type \<in> set (columns df) \<and> unsortable (map c_product_type (rows df))) \<and>
      \<not> unsortable (map c_causale (rows df)) \<and>
      \<not> unsortable (map c_canale (rows df)) \<and>
      \<not> unsortable (map c_scope (rows df)))"

section \<open>Example data\<close>

definition all_columns :: "column list" where
  "all_columns = [Cod_CRM, Channel, Product_Type, Causale, Canale, Out_of_Scope_Filter,
                  Cluster_Check, Tier, Brand, Net_Price_1_Revenue]"

text \<open>A row that the fixed eligibility rule accepts.\<close>

definition sale :: "int \<Rightarrow> string option \<Rightarrow> string option \<Rightarrow> int option \<Rightarrow> row" where
  "sale k t b v =
     \<lparr>c_channel = Some ''Independent Pharmacies'', c_product_type = Some ''OTC'',
      c_causale = Some ''Vendita'', c_canale = Some ''Retail'', c_scope = Some ''In scope'',
      c_cluster_check = Some '' 1.EL '', c_cod_crm = Some k, c_tier = t, c_brand = b,
      c_revenue = v\<rparr>"

definition no_selection :: selection where
  "no_selection = \<lparr>pick_channel = [], pick_product_type = [], pick_causale = [],
                    pick_canale = [], pick_scope = []\<rparr>"

definition default_thresholds :: thresholds where
  "default_thresholds =
     \<lparr>silver_min = 1000, gold_min = 1000, gold_max = 2000, platinum_min = 2000\<rparr>"

text \<open>
  Three pharmacies in scope: 1 (1500 over tiers 2 and 3), 2 (2500 in tier 1) and 3 (500,
  its tier cell empty); a return (Reso) of pharmacy 4 and an online sale of pharmacy 5.
\<close>

definition example_rows :: "row list" where
  "example_rows =
     [sale 2 (Some ''Tier 1'') (Some ''c'') (Some 2500),
      sale 1 (Some ''Tier 2'') (Some ''a'') (Some 700),
      (sale 4 (Some ''Tier 2'') (Some ''a'') (Some 900))\<lparr>c_causale := Some ''Reso''\<rparr>,
      sale 3 None (Some ''d'') (Some 500),
      sale 1 (Some ''Tier 3'') (Some ''b'') (Some 800),
      (sale 5 (Some ''Tier 3'') (Some ''b'') (Some 1200))\<lparr>c_canale := Some ''Online''\<rparr>]"

definition example_table :: table where
  "example_table = \<lparr>columns = all_columns, rows = example_rows\<rparr>"

section \<open>The outputs on an empty filtered record set\<close>


section \<open>What the classification may depend on\<close>

text \<open>
  A pharmacy's total revenue over the filtered rows, as the specification words it: the
  sum of the revenue of its rows, for a pharmacy that has a row.
\<close>

definition pharmacy_total :: "row list \<Rightarrow> int \<Rightarrow> int option" where
  "pharmacy_total rs k =
     (if Some k \<in> set (map c_cod_crm rs)
      then Some (nan_sum (map c_revenue (filter (\<lambda>r. c_cod_crm r = Some k) rs)))
      else None)"

text \<open>The classified aggregate, the category table and the summary table of a run.\<close>

definition classification ::
  "outputs \<Rightarrow> classified_revenue list \<times> (category \<times> int option list) list \<times> summary_row list" where
  "classification out =
     (out_all_pharmacy_revenue out, out_category_table_pivot out, out_summary_table out)"

text \<open>The same table with other tier labels and other brand identifiers in its rows.\<close>

definition relabel :: "(row \<Rightarrow> string option) \<Rightarrow> (row \<Rightarrow> string option) \<Rightarrow> table \<Rightarrow> table" where
  "relabel f g df = df\<lparr>rows := map (\<lambda>r. r\<lparr>c_tier := f r, c_brand := g r\<rparr>) (rows df)\<rparr>"

text \<open>
  The distinct-product count of a pharmacy in a tier, as the specification words it: the
  number of distinct brand identifiers over the pharmacy's rows of that tier, which is 0
  when there is no such row.
\<close>

definition distinct_products :: "row list \<Rightarrow> int \<Rightarrow> string \<Rightarrow> nat" where
  "distinct_products rs k t =
     nunique (map c_brand (filter (\<lambda>r. c_cod_crm r = Some k \<and> c_tier r = Some t) rs))"

text \<open>The pharmacy has a row with this tier label.\<close>

definition occurs :: "row list \<Rightarrow> int \<Rightarrow> string \<Rightarrow> bool" where
  "occurs rs k t = (\<exists>r \<in> set rs. c_cod_crm r = Some k \<and> c_tier r = Some t)"

text \<open>
  Two filtered tables with the same revenue per pharmacy and different tier labels and
  brands.
\<close>

definition example_filtered :: table where
  "example_filtered = \<lparr>columns = all_columns, rows = filter eligible example_rows\<rparr>"

definition example_other_labels :: table where
  "example_other_labels =
     \<lparr>columns = all_columns,
      rows = [sale 5 (Some ''Tier 1'') None (Some 1200),
              sale 1 (Some ''Tier 1'') (Some ''z'') (Some 1500),
              sale 3 (Some ''Tier 2'') (Some ''q'') (Some 500),
              sale 2 None (Some ''y'') (Some 2000),
              sale 2 (Some ''Tier 3'') (Some ''x'') (Some 500)]\<rparr>"

text \<open>Pharmacy 1 sells one tier 2 product; the tier cell of pharmacy 3's only row is empty.\<close>

definition example_unlabelled :: table where
  "example_unlabelled =
     \<lparr>columns = all_columns,
      rows = [sale 1 (Some ''Tier 2'') (Some ''a'') (Some 700),
              sale 3 None (Some ''d'') (Some 500)]\<rparr>"

section \<open>Classifier: theorems\<close>

lemma assign_categories_map:
  "assign_categories thr apr =
     map (\<lambda>p. \<lparr>cod_crm = cod_crm p,
               total_net1rev_imponibile = total_net1rev_imponibile p,
               partnership_category =
                 (if total_net1rev_imponibile p \<ge> platinum_min thr then Platinum
                  else if gold_min thr \<le> total_net1rev_imponibile p
                          \<and> total_net1rev_imponibile p < gold_max thr then Gold
                  else if total_net1rev_imponibile p > silver_min thr then Silver
                  else Unassigned)\<rparr>) apr"
  by (simp add: assign_categories_def loc_assign_def Let_def)

lemma last_matching_rule_cases:
  "last_matching_rule thr v =
     (if v \<ge> platinum_min thr then Platinum
      else if gold_min thr \<le> v \<and> v < gold_max thr then Gold
      else if v > silver_min thr then Silver
      else Unassigned)"
  by (simp add: last_matching_rule_def ordered_rules_def)

lemma overwrite_in_order_cases:
  "overwrite_in_order thr v =
     (if v \<ge> platinum_min thr then Platinum
      else if gold_min thr \<le> v \<and> v < gold_max thr then Gold
      else if v > silver_min thr then Silver
      else Unassigned)"
  by (simp add: overwrite_in_order_def ordered_rules_def)

lemma in_assign_categories:
  "p \<in> set (assign_categories thr apr) \<Longrightarrow>
     partnership_category p =
       (if total_net1rev_imponibile p \<ge> platinum_min thr then Platinum
        else if gold_min thr \<le> total_net1rev_imponibile p
                \<and> total_net1rev_imponibile p < gold_max thr then Gold
        else if total_net1rev_imponibile p > silver_min thr then Silver
        else Unassigned)"
  by (auto simp: assign_categories_map)

lemma engine_error_iff: "engine thr m = Inl e \<longleftrightarrow> aggregator m = Inl e"
  by (simp add: engine_def bind_err_def Let_def split: sum.splits)

text \<open>
  Claim C1. For every table of pharmacy totals and every threshold configuration, the
  classifier gives each pharmacy the category obtained by starting from Unassigned and
  letting rule 2 (Silver), rule 3 (Gold) and rule 4 (Platinum) overwrite it in this order,
  which is the category of the last matching rule; identifiers and totals are unchanged.
  With the thresholds 1000, 1000, 2000, 2000 a revenue of 1500 is Gold, 2500 is Platinum
  and 500 is Unassigned.
\<close>

theorem classifier_last_rule_wins:
  "map partnership_category (assign_categories thr apr)
     = map (\<lambda>p. overwrite_in_order thr (total_net1rev_imponibile p)) apr
   \<and> map partnership_category (assign_categories thr apr)
     = map (\<lambda>p. last_matching_rule thr (total_net1rev_imponibile p)) apr
   \<and> map cod_crm (assign_categories thr apr) = map cod_crm apr
   \<and> map total_net1rev_imponibile (assign_categories thr apr) = map total_net1rev_imponibile apr
   \<and> assign_categories \<lparr>silver_min = 1000, gold_min = 1000, gold_max = 2000, platinum_min = 2000\<rparr>
        [\<lparr>cod_crm = 1, total_net1rev_imponibile = 1500\<rparr>,
         \<lparr>cod_crm = 2, total_net1rev_imponibile = 2500\<rparr>,
         \<lparr>cod_crm = 3, total_net1rev_imponibile = 500\<rparr>]
      = [\<lparr>cod_crm = 1, total_net1rev_imponibile = 1500, partnership_category = Gold\<rparr>,
         \<lparr>cod_crm = 2, total_net1rev_imponibile = 2500, partnership_category = Platinum\<rparr>,
         \<lparr>cod_crm = 3, total_net1rev_imponibile = 500, partnership_category = Unassigned\<rparr>]"
  by (simp add: assign_categories_map overwrite_in_order_cases last_matching_rule_cases o_def)

text \<open>
  The first part of claim C2 as it is stated fails: a revenue equal to \<open>gold_min\<close> is
  Platinum when \<open>platinum_min\<close> is not above \<open>gold_min\<close>, and is not Gold when the Gold range
  is empty.
\<close>

theorem gold_min_not_always_gold:
  "assign_categories \<lparr>silver_min = 1000, gold_min = 2000, gold_max = 3000, platinum_min = 2000\<rparr>
     [\<lparr>cod_crm = 1, total_net1rev_imponibile = 2000\<rparr>]
     = [\<lparr>cod_crm = 1, total_net1rev_imponibile = 2000, partnership_category = Platinum\<rparr>]
   \<and> assign_categories \<lparr>silver_min = 1000, gold_min = 1000, gold_max = 1000, platinum_min = 2000\<rparr>
     [\<lparr>cod_crm = 1, total_net1rev_imponibile = 1000\<rparr>]
     = [\<lparr>cod_crm = 1, total_net1rev_imponibile = 1000, partnership_category = Unassigned\<rparr>]"
  by (simp add: assign_categories_map)

text \<open>
  Claim C2, amended. For every threshold configuration and every classified pharmacy:
  when its total revenue equals \<open>gold_min\<close>, it is Gold exactly if \<open>gold_min < gold_max\<close>
  and \<open>gold_min < platinum_min\<close>; when its total revenue equals \<open>gold_max\<close>, it is not
  Gold; when its total revenue equals \<open>silver_min\<close>, it is not Silver.
\<close>

theorem boundary_categories:
  assumes "p \<in> set (assign_categories thr apr)"
  shows "(total_net1rev_imponibile p = gold_min thr \<longrightarrow>
            (partnership_category p = Gold
               \<longleftrightarrow> gold_min thr < gold_max thr \<and> gold_min thr < platinum_min thr))
       \<and> (total_net1rev_imponibile p = gold_max thr \<longrightarrow> partnership_category p \<noteq> Gold)
       \<and> (total_net1rev_imponibile p = silver_min thr \<longrightarrow> partnership_category p \<noteq> Silver)"
  using in_assign_categories [OF assms] by auto

theorem boundary_categories_witness:
  "(let thr = \<lparr>silver_min = 1000, gold_min = 1000, gold_max = 2000, platinum_min = 2000\<rparr>;
        p = \<lparr>cod_crm = 7, total_net1rev_imponibile = 1000, partnership_category = Gold\<rparr>
    in p \<in> set (assign_categories thr [\<lparr>cod_crm = 7, total_net1rev_imponibile = 1000\<rparr>])
       \<and> total_net1rev_imponibile p = gold_min thr
       \<and> total_net1rev_imponibile p = silver_min thr
       \<and> gold_min thr < gold_max thr \<and> gold_min thr < platinum_min thr
       \<and> partnership_category p = Gold \<and> partnership_category p \<noteq> Silver)
   \<and> (let thr = \<lparr>silver_min = 1000, gold_min = 1000, gold_max = 2000, platinum_min = 3000\<rparr>;
        q = \<lparr>cod_crm = 8, total_net1rev_imponibile = 2000, partnership_category = Silver\<rparr>
    in q \<in> set (assign_categories thr [\<lparr>cod_crm = 8, total_net1rev_imponibile = 2000\<rparr>])
       \<and> total_net1rev_imponibile q = gold_max thr
       \<and> partnership_category q \<noteq> Gold)"
  using boundary_categories [of "\<lparr>cod_crm = 7, total_net1rev_imponibile = 1000, partnership_category = Gold\<rparr>"
      "\<lparr>silver_min = 1000, gold_min = 1000, gold_max = 2000, platinum_min = 2000\<rparr>"
      "[\<lparr>cod_crm = 7, total_net1rev_imponibile = 1000\<rparr>]"]
    boundary_categories [of "\<lparr>cod_crm = 8, total_net1rev_imponibile = 2000, partnership_category = Silver\<rparr>"
      "\<lparr>silver_min = 1000, gold_min = 1000, gold_max = 2000, platinum_min = 3000\<rparr>"
      "[\<lparr>cod_crm = 8, total_net1rev_imponibile = 2000\<rparr>]"]
  by (simp add: assign_categories_map)

text \<open>
  Claim C5. For every threshold configuration with \<open>gold_max < gold_min\<close>: no threshold
  is validated (the computation fails only where the Aggregator fails), no pharmacy is
  Gold and the Gold bucket of the category table is empty, and every pharmacy has the
  category that the Silver and Platinum rules alone give it.
\<close>

theorem inverted_gold_range_empty_bucket:
  assumes "gold_max thr < gold_min thr"
  shows "map partnership_category (assign_categories thr apr)
           = map (\<lambda>p. if total_net1rev_imponibile p \<ge> platinum_min thr then Platinum
                       else if total_net1rev_imponibile p > silver_min thr then Silver
                       else Unassigned) apr
       \<and> filter (\<lambda>p. partnership_category p = Gold) (assign_categories thr apr) = []
       \<and> map_of (category_table (assign_categories thr apr)) Gold = Some []
       \<and> (engine thr m = Inl e \<longleftrightarrow> aggregator m = Inl e)"
proof -
  have not_gold: "\<not> (gold_min thr \<le> v \<and> v < gold_max thr)" for v
    using assms by linarith
  have cats: "map partnership_category (assign_categories thr apr)
           = map (\<lambda>p. if total_net1rev_imponibile p \<ge> platinum_min thr then Platinum
                       else if total_net1rev_imponibile p > silver_min thr then Silver
                       else Unassigned) apr"
    by (simp add: assign_categories_map o_def not_gold)
  have empty: "filter (\<lambda>p. partnership_category p = Gold) (assign_categories thr apr) = []"
    by (auto simp: filter_empty_conv assign_categories_map not_gold)
  have bucket: "map_of (category_table (assign_categories thr apr)) Gold = Some []"
    by (simp add: category_table_def category_order_def empty)
  show ?thesis using cats empty bucket engine_error_iff by simp
qed

theorem inverted_gold_range_empty_bucket_witness:
  "(let thr = \<lparr>silver_min = 1000, gold_min = 2000, gold_max = 1500, platinum_min = 3000\<rparr>;
        apr = [\<lparr>cod_crm = 1, total_net1rev_imponibile = 1700\<rparr>,
               \<lparr>cod_crm = 2, total_net1rev_imponibile = 3500\<rparr>,
               \<lparr>cod_crm = 3, total_net1rev_imponibile = 2000\<rparr>,
               \<lparr>cod_crm = 4, total_net1rev_imponibile = 10\<rparr>]
    in gold_max thr < gold_min thr
       \<and> map partnership_category (assign_categories thr apr) = [Silver, Platinum, Silver, Unassigned]
       \<and> map_of (category_table (assign_categories thr apr)) Gold = Some [])"
  using inverted_gold_range_empty_bucket
      [of "\<lparr>silver_min = 1000, gold_min = 2000, gold_max = 1500, platinum_min = 3000\<rparr>"
          "[\<lparr>cod_crm = 1, total_net1rev_imponibile = 1700\<rparr>,
               \<lparr>cod_crm = 2, total_net1rev_imponibile = 3500\<rparr>,
               \<lparr>cod_crm = 3, total_net1rev_imponibile = 2000\<rparr>,
               \<lparr>cod_crm = 4, total_net1rev_imponibile = 10\<rparr>]"]
  by (simp add: Let_def)

section \<open>Record Filter: theorems\<close>

lemma bind_err_Inr:
  "bind_err m f = Inr y \<longleftrightarrow> (\<exists>x. m = Inr x \<and> f x = Inr y)"
  by (cases m) (simp_all add: bind_err_def)

lemma multiselect_Inr:
  "multiselect df c cell picked = Inr w \<Longrightarrow>
     w = (if c \<in> set (columns df) then Some picked else None)"
  by (auto simp: multiselect_def split: if_splits)

lemma filters_Inr:
  assumes "filters ui df = Inr fv"
  shows "channels fv = supplied df Channel (pick_channel ui)"
    and "products fv = supplied df Product_Type (pick_product_type ui)"
    and "causale fv = (if Causale \<in> set (columns df) then Some (pick_causale ui) else None)"
    and "canale fv = (if Canale \<in> set (columns df) then Some (pick_canale ui) else None)"
    and "scope_filter fv =
           (if Out_of_Scope_Filter \<in> set (columns df) then Some (pick_scope ui) else None)"
  using assms
  by (auto simp: filters_def bind_err_Inr supplied_def dest!: multiselect_Inr)

lemma apply_filter_Inr:
  assumes "apply_filter name bound c cell d = Inr d'"
  shows "\<exists>vals. bound = Some vals \<and> columns d' = columns d
           \<and> rows d' = filter (\<lambda>r. passes vals (cell r)) (rows d)"
  using assms
  by (auto simp: apply_filter_def isin_rows_def passes_def split: option.splits if_splits)

lemma df_filtered_Inr:
  assumes "df_filtered fv df = Inr d"
  shows "\<exists>cs cn sc. causale fv = Some cs \<and> canale fv = Some cn \<and> scope_filter fv = Some sc
           \<and> columns d = columns df
           \<and> rows d = filter (\<lambda>r. passes (channels fv) (c_channel r)
                                  \<and> passes (products fv) (c_product_type r)
                                  \<and> passes cs (c_causale r)
                                  \<and> passes cn (c_canale r)
                                  \<and> passes sc (c_scope r)) (rows df)"
proof -
  from assms obtain d1 d2 d3 d4 where
    s1: "apply_filter ''channels'' (Some (channels fv)) Channel c_channel df = Inr d1" and
    s2: "apply_filter ''products'' (Some (products fv)) Product_Type c_product_type d1 = Inr d2" and
    s3: "apply_filter ''causale'' (causale fv) Causale c_causale d2 = Inr d3" and
    s4: "apply_filter ''canale'' (canale fv) Canale c_canale d3 = Inr d4" and
    s5: "apply_filter ''scope_filter'' (scope_filter fv) Out_of_Scope_Filter c_scope d4 = Inr d"
    unfolding df_filtered_def bind_err_Inr by blast
  from apply_filter_Inr [OF s1] have r1:
    "columns d1 = columns df" "rows d1 = filter (\<lambda>r. passes (channels fv) (c_channel r)) (rows df)"
    by auto
  from apply_filter_Inr [OF s2] have r2:
    "columns d2 = columns d1"
    "rows d2 = filter (\<lambda>r. passes (products fv) (c_product_type r)) (rows d1)"
    by auto
  from apply_filter_Inr [OF s3] obtain cs where r3: "causale fv = Some cs"
    "columns d3 = columns d2" "rows d3 = filter (\<lambda>r. passes cs (c_causale r)) (rows d2)"
    by auto
  from apply_filter_Inr [OF s4] obtain cn where r4: "canale fv = Some cn"
    "columns d4 = columns d3" "rows d4 = filter (\<lambda>r. passes cn (c_canale r)) (rows d3)"
    by auto
  from apply_filter_Inr [OF s5] obtain sc where r5: "scope_filter fv = Some sc"
    "columns d = columns d4" "rows d = filter (\<lambda>r. passes sc (c_scope r)) (rows d4)"
    by auto
  have "rows d = filter (\<lambda>r. passes (channels fv) (c_channel r)
                                  \<and> passes (products fv) (c_product_type r)
                                  \<and> passes cs (c_causale r)
                                  \<and> passes cn (c_canale r)
                                  \<and> passes sc (c_scope r)) (rows df)"
    unfolding r5 r4 r3 r2 r1 filter_filter by (rule filter_cong) auto
  moreover have "columns d = columns df"
    by (simp add: r1 r2 r3 r4 r5)
  ultimately show ?thesis using r3 r4 r5 by blast
qed

lemma merged_pharmacies_Inr:
  assumes "merged_pharmacies d = Inr m"
  shows "columns m = columns d \<and> rows m = filter eligible (rows d)
       \<and> set [Channel, Causale, Out_of_Scope_Filter, Cluster_Check] \<subseteq> set (columns d)"
  using assms by (auto simp: merged_pharmacies_def split: if_splits)

lemma record_filter_rows:
  assumes "record_filter ui df = Inr m"
  shows "columns m = columns df \<and> rows m = filter (in_filtered_set ui df) (rows df)"
proof -
  from assms obtain fv d where
    f: "filters ui df = Inr fv" and a: "df_filtered fv df = Inr d"
    and g: "merged_pharmacies d = Inr m"
    unfolding record_filter_def bind_err_Inr by blast
  from df_filtered_Inr [OF a] obtain cs cn sc where
    b: "causale fv = Some cs" "canale fv = Some cn" "scope_filter fv = Some sc"
    and cd: "columns d = columns df"
    and rd: "rows d = filter (\<lambda>r. passes (channels fv) (c_channel r)
                                  \<and> passes (products fv) (c_product_type r)
                                  \<and> passes cs (c_causale r)
                                  \<and> passes cn (c_canale r)
                                  \<and> passes sc (c_scope r)) (rows df)"
    by blast
  have cs: "cs = supplied df Causale (pick_causale ui)"
    and cn: "cn = supplied df Canale (pick_canale ui)"
    and sc: "sc = supplied df Out_of_Scope_Filter (pick_scope ui)"
    using filters_Inr(3-5) [OF f] b by (auto simp: supplied_def split: if_splits)
  from merged_pharmacies_Inr [OF g] have
    m: "columns m = columns d" "rows m = filter eligible (rows d)" by auto
  have "rows m = filter (in_filtered_set ui df) (rows df)"
    unfolding m rd filter_filter
    by (rule filter_cong)
       (auto simp: in_filtered_set_def eligible_def filters_Inr(1,2) [OF f] cs cn sc)
  then show ?thesis using m cd by simp
qed

lemma record_filter_succeeds:
  assumes "filterable df"
  shows "\<exists>m. record_filter ui df = Inr m"
  using assms
  by (simp add: filterable_def record_filter_def filters_def multiselect_def bind_err_def
        df_filtered_def apply_filter_def isin_rows_def merged_pharmacies_def)

lemma canale_absent_aborts:
  assumes "Canale \<notin> set (columns df)"
  shows "\<exists>e. compute ui thr df = Inl e"
proof (cases "filters ui df")
  case (Inl e)
  then show ?thesis by (simp add: compute_def record_filter_def bind_err_def)
next
  case (Inr fv)
  from filters_Inr(4) [OF Inr] assms have "canale fv = None" by simp
  then have "df_filtered fv df \<noteq> Inr d" for d
    using df_filtered_Inr [of fv df d] by auto
  then obtain e where "df_filtered fv df = Inl e"
    by (cases "df_filtered fv df") auto
  with Inr show ?thesis by (simp add: compute_def record_filter_def bind_err_def)
qed

text \<open>
  A table without one of the four columns of the fixed rule gives no output table, in
  either script.
\<close>

lemma fixed_rule_column_absent_aborts:
  assumes "c \<in> set [Channel, Causale, Out_of_Scope_Filter, Cluster_Check]"
    and "c \<notin> set (columns df)"
  shows "(\<exists>e. compute ui thr df = Inl e) \<and> (\<exists>e. simulation_compute thr df = Inl e)"
proof -
  have "record_filter ui df \<noteq> Inr m" for m
  proof
    assume "record_filter ui df = Inr m"
    then obtain fv d where a: "df_filtered fv df = Inr d" and g: "merged_pharmacies d = Inr m"
      unfolding record_filter_def bind_err_Inr by blast
    from df_filtered_Inr [OF a] have "columns d = columns df" by blast
    with merged_pharmacies_Inr [OF g] assms show False by auto
  qed
  then obtain e where "record_filter ui df = Inl e"
    by (cases "record_filter ui df") auto
  then have "compute ui thr df = Inl e"
    by (simp add: compute_def bind_err_def)
  moreover
  have "merged_pharmacies df \<noteq> Inr m" for m
    using merged_pharmacies_Inr [of df m] assms by auto
  then obtain e' where "merged_pharmacies df = Inl e'"
    by (cases "merged_pharmacies df") auto
  then have "simulation_compute thr df = Inl e'"
    by (simp add: simulation_compute_def bind_err_def)
  ultimately show ?thesis by blast
qed

text \<open>
  Claim C3 says that when an optional filter column is absent its filter is skipped and
  the computation goes on. For the column Canale the script does not do so: the name
  \<open>canale\<close> is bound only when the column is present, and line 53 reads it in any case.
  On a table that has every column but Canale, app.py stops with a NameError; the same
  script goes on when Product\_Type is the absent column (its name is bound to the empty
  list at line 32), and the script without the optional filters accepts the table.
\<close>

theorem missing_canale_column_aborts:
  "compute no_selection default_thresholds
     \<lparr>columns = remove1 Canale all_columns,
      rows = [sale 1 (Some ''Tier 2'') (Some ''a'') (Some 1500)]\<rparr>
     = Inl (NameError ''canale'')
   \<and> (case compute no_selection default_thresholds
        \<lparr>columns = remove1 Product_Type all_columns,
         rows = [sale 1 (Some ''Tier 2'') (Some ''a'') (Some 1500)]\<rparr>
       of Inl e \<Rightarrow> False
        | Inr out \<Rightarrow> map cod_crm (out_all_pharmacy_revenue out) = [1])
   \<and> (case simulation_compute default_thresholds
        \<lparr>columns = remove1 Canale all_columns,
         rows = [sale 1 (Some ''Tier 2'') (Some ''a'') (Some 1500)]\<rparr>
       of Inl e \<Rightarrow> False
        | Inr out \<Rightarrow> map cod_crm (out_all_pharmacy_revenue out) = [1])"
  by code_simp

text \<open>
  Claim C4. For every input table and every choice of inclusion lists: when the Record
  Filter returns, its table has the input's columns and exactly the input's rows (in
  their order) that pass every supplied inclusion list and satisfy the fixed eligibility
  rule; and it returns on every table that has the five columns it reads and whose widget
  columns can be sorted.
\<close>

theorem filtered_rows_characterised:
  "(record_filter ui df = Inr m \<longrightarrow>
      columns m = columns df \<and> rows m = filter (in_filtered_set ui df) (rows df))
   \<and> (filterable df \<longrightarrow> (\<exists>m'. record_filter ui df = Inr m'))"
  using record_filter_rows [of ui df m] record_filter_succeeds [of df ui] by blast

theorem filtered_rows_characterised_witness:
  "record_filter (no_selection\<lparr>pick_canale := [Some ''Retail'']\<rparr>) example_table
     = Inr \<lparr>columns = all_columns,
            rows = [sale 2 (Some ''Tier 1'') (Some ''c'') (Some 2500),
                    sale 1 (Some ''Tier 2'') (Some ''a'') (Some 700),
                    sale 3 None (Some ''d'') (Some 500),
                    sale 1 (Some ''Tier 3'') (Some ''b'') (Some 800)]\<rparr>
   \<and> filter (in_filtered_set (no_selection\<lparr>pick_canale := [Some ''Retail'']\<rparr>) example_table)
        (rows example_table)
     = [sale 2 (Some ''Tier 1'') (Some ''c'') (Some 2500),
        sale 1 (Some ''Tier 2'') (Some ''a'') (Some 700),
        sale 3 None (Some ''d'') (Some 500),
        sale 1 (Some ''Tier 3'') (Some ''b'') (Some 800)]
   \<and> filterable example_table"
proof -
  have run: "record_filter (no_selection\<lparr>pick_canale := [Some ''Retail'']\<rparr>) example_table
     = Inr \<lparr>columns = all_columns,
            rows = [sale 2 (Some ''Tier 1'') (Some ''c'') (Some 2500),
                    sale 1 (Some ''Tier 2'') (Some ''a'') (Some 700),
                    sale 3 None (Some ''d'') (Some 500),
                    sale 1 (Some ''Tier 3'') (Some ''b'') (Some 800)]\<rparr>"
    by code_simp
  have ok: "filterable example_table"
    by code_simp
  from filtered_rows_characterised
         [of "no_selection\<lparr>pick_canale := [Some ''Retail'']\<rparr>" example_table
             "\<lparr>columns = all_columns,
               rows = [sale 2 (Some ''Tier 1'') (Some ''c'') (Some 2500),
                       sale 1 (Some ''Tier 2'') (Some ''a'') (Some 700),
                       sale 3 None (Some ''d'') (Some 500),
                       sale 1 (Some ''Tier 3'') (Some ''b'') (Some 800)]\<rparr>"] run ok
  show ?thesis by simp
qed

section \<open>Aggregator: theorems\<close>











section \<open>Table Builder and whole computation: theorems\<close>

lemma summary_table_rows:
  "summary_table cl =
     [\<lparr>partnership_label = Category Silver,
       num_pharmacies = length (filter (\<lambda>p. partnership_category p = Silver) cl),
       total_revenue = sum_list (map total_net1rev_imponibile
                                  (filter (\<lambda>p. partnership_category p = Silver) cl))\<rparr>,
      \<lparr>partnership_label = Category Gold,
       num_pharmacies = length (filter (\<lambda>p. partnership_category p = Gold) cl),
       total_revenue = sum_list (map total_net1rev_imponibile
                                  (filter (\<lambda>p. partnership_category p = Gold) cl))\<rparr>,
      \<lparr>partnership_label = Category Platinum,
       num_pharmacies = length (filter (\<lambda>p. partnership_category p = Platinum) cl),
       total_revenue = sum_list (map total_net1rev_imponibile
                                  (filter (\<lambda>p. partnership_category p = Platinum) cl))\<rparr>,
      \<lparr>partnership_label = Category Unassigned,
       num_pharmacies = length (filter (\<lambda>p. partnership_category p = Unassigned) cl),
       total_revenue = sum_list (map total_net1rev_imponibile
                                  (filter (\<lambda>p. partnership_category p = Unassigned) cl))\<rparr>,
      \<lparr>partnership_label = Total_ex_Unassigned,
       num_pharmacies = length (filter (\<lambda>p. partnership_category p = Silver) cl)
                        + length (filter (\<lambda>p. partnership_category p = Gold) cl)
                        + length (filter (\<lambda>p. partnership_category p = Platinum) cl),
       total_revenue = sum_list (map total_net1rev_imponibile
                                  (filter (\<lambda>p. partnership_category p = Silver) cl))
                       + sum_list (map total_net1rev_imponibile
                                  (filter (\<lambda>p. partnership_category p = Gold) cl))
                       + sum_list (map total_net1rev_imponibile
                                  (filter (\<lambda>p. partnership_category p = Platinum) cl))\<rparr>]"
  by (simp add: summary_table_def summary_groups_def category_order_def total_row_def
        no_unassigned_def Let_def)

lemma count_assigned:
  "length (filter (\<lambda>p. partnership_category p = Silver) cl)
     + length (filter (\<lambda>p. partnership_category p = Gold) cl)
     + length (filter (\<lambda>p. partnership_category p = Platinum) cl)
   = length (filter (\<lambda>p. partnership_category p \<noteq> Unassigned) cl)"
proof (induction cl)
  case Nil
  then show ?case by simp
next
  case (Cons q cl)
  then show ?case by (cases "partnership_category q") simp_all
qed

lemma revenue_assigned:
  "sum_list (map total_net1rev_imponibile (filter (\<lambda>p. partnership_category p = Silver) cl))
     + sum_list (map total_net1rev_imponibile (filter (\<lambda>p. partnership_category p = Gold) cl))
     + sum_list (map total_net1rev_imponibile (filter (\<lambda>p. partnership_category p = Platinum) cl))
   = sum_list (map total_net1rev_imponibile
                (filter (\<lambda>p. partnership_category p \<noteq> Unassigned) cl))"
proof (induction cl)
  case Nil
  then show ?case by simp
next
  case (Cons q cl)
  then show ?case by (cases "partnership_category q") simp_all
qed


text \<open>
  Claim C8. For every classified aggregate, the summary table has the four category rows
  in display order and then the grand-total row; the grand-total row's count and revenue
  are the sums of the counts and revenues of the Silver, Gold and Platinum rows, that is
  of the pharmacies that are not Unassigned, whatever the Unassigned row holds; and when
  every pharmacy is Unassigned (or there is none) the grand-total row is 0 and 0.
\<close>

theorem summary_grand_total:
  "(let st = summary_table cl; t = st ! 4 in
      length st = 5
    \<and> map partnership_label st
        = [Category Silver, Category Gold, Category Platinum, Category Unassigned,
           Total_ex_Unassigned]
    \<and> num_pharmacies t = num_pharmacies (st ! 0) + num_pharmacies (st ! 1) + num_pharmacies (st ! 2)
    \<and> total_revenue t = total_revenue (st ! 0) + total_revenue (st ! 1) + total_revenue (st ! 2)
    \<and> num_pharmacies (st ! 3) = length (filter (\<lambda>p. partnership_category p = Unassigned) cl)
    \<and> num_pharmacies t = length (filter (\<lambda>p. partnership_category p \<noteq> Unassigned) cl)
    \<and> total_revenue t
        = sum_list (map total_net1rev_imponibile
                     (filter (\<lambda>p. partnership_category p \<noteq> Unassigned) cl))
    \<and> ((\<forall>p \<in> set cl. partnership_category p = Unassigned)
          \<longrightarrow> num_pharmacies t = 0 \<and> total_revenue t = 0))"
proof -
  have z: "(\<forall>p \<in> set cl. partnership_category p = Unassigned)
             \<Longrightarrow> filter (\<lambda>p. partnership_category p \<noteq> Unassigned) cl = []"
    by (simp add: filter_empty_conv)
  show ?thesis
    unfolding Let_def summary_table_rows
    using z by (auto simp: count_assigned revenue_assigned)
qed

theorem summary_grand_total_witness:
  "summary_table (assign_categories default_thresholds
                   (all_pharmacy_revenue (filter eligible example_rows))) ! 4
     = \<lparr>partnership_label = Total_ex_Unassigned, num_pharmacies = 3, total_revenue = 5200\<rparr>
   \<and> num_pharmacies (summary_table (assign_categories default_thresholds
                   (all_pharmacy_revenue (filter eligible example_rows))) ! 3) = 1
   \<and> list_all (\<lambda>p. partnership_category p = Unassigned)
        (assign_categories default_thresholds [\<lparr>cod_crm = 3, total_net1rev_imponibile = 500\<rparr>])
   \<and> summary_table (assign_categories default_thresholds
                      [\<lparr>cod_crm = 3, total_net1rev_imponibile = 500\<rparr>]) ! 4
     = \<lparr>partnership_label = Total_ex_Unassigned, num_pharmacies = 0, total_revenue = 0\<rparr>
   \<and> num_pharmacies (summary_table (assign_categories default_thresholds
                      [\<lparr>cod_crm = 3, total_net1rev_imponibile = 500\<rparr>]) ! 3) = 1"
proof -
  have a: "summary_table (assign_categories default_thresholds
                   (all_pharmacy_revenue (filter eligible example_rows)))
     = [\<lparr>partnership_label = Category Silver, num_pharmacies = 0, total_revenue = 0\<rparr>,
        \<lparr>partnership_label = Category Gold, num_pharmacies = 2, total_revenue = 2700\<rparr>,
        \<lparr>partnership_label = Category Platinum, num_pharmacies = 1, total_revenue = 2500\<rparr>,
        \<lparr>partnership_label = Category Unassigned, num_pharmacies = 1, total_revenue = 500\<rparr>,
        \<lparr>partnership_label = Total_ex_Unassigned, num_pharmacies = 3, total_revenue = 5200\<rparr>]"
    by code_simp
  have b: "assign_categories default_thresholds [\<lparr>cod_crm = 3, total_net1rev_imponibile = 500\<rparr>]
     = [\<lparr>cod_crm = 3, total_net1rev_imponibile = 500, partnership_category = Unassigned\<rparr>]"
    by code_simp
  have c: "\<forall>p \<in> set (assign_categories default_thresholds
                         [\<lparr>cod_crm = 3, total_net1rev_imponibile = 500\<rparr>]).
             partnership_category p = Unassigned"
    by (simp add: b)
  have d: "summary_table (assign_categories default_thresholds
                      [\<lparr>cod_crm = 3, total_net1rev_imponibile = 500\<rparr>]) ! 3
     = \<lparr>partnership_label = Category Unassigned, num_pharmacies = 1, total_revenue = 500\<rparr>"
    by code_simp
  from summary_grand_total
         [of "assign_categories default_thresholds [\<lparr>cod_crm = 3, total_net1rev_imponibile = 500\<rparr>]"] c
  have e: "summary_table (assign_categories default_thresholds
                      [\<lparr>cod_crm = 3, total_net1rev_imponibile = 500\<rparr>]) ! 4
     = \<lparr>partnership_label = Total_ex_Unassigned, num_pharmacies = 0, total_revenue = 0\<rparr>"
    by (simp add: Let_def summary_table_rows)
  from summary_grand_total
         [of "assign_categories default_thresholds
                (all_pharmacy_revenue (filter eligible example_rows))"] a c d e
  show ?thesis by (simp add: list_all_iff)
qed



section \<open>Tier metrics and classification: theorems\<close>

lemma set_map_filter_cod:
  "set (List.map_filter c_cod_crm rs) = {k. pharmacy_total rs k \<noteq> None}"
proof (rule set_eqI)
  fix k
  have "k \<in> set (List.map_filter c_cod_crm rs) \<longleftrightarrow> (\<exists>r \<in> set rs. c_cod_crm r = Some k)"
    by (force simp: List.map_filter_def)
  also have "\<dots> \<longleftrightarrow> Some k \<in> set (map c_cod_crm rs)"
    by (force simp: image_iff)
  finally show "k \<in> set (List.map_filter c_cod_crm rs) \<longleftrightarrow> k \<in> {k. pharmacy_total rs k \<noteq> None}"
    by (simp add: pharmacy_total_def)
qed

lemma all_pharmacy_revenue_by_total:
  "all_pharmacy_revenue rs =
     map (\<lambda>k. \<lparr>cod_crm = k, total_net1rev_imponibile = the (pharmacy_total rs k)\<rparr>)
       (sorted_list_of_set {k. pharmacy_total rs k \<noteq> None})"
proof -
  have k: "groupby_keys rs = sorted_list_of_set {k. pharmacy_total rs k \<noteq> None}"
    by (simp add: groupby_keys_def set_map_filter_cod flip: sorted_list_of_set_sort_remdups)
  have fin: "finite {k. pharmacy_total rs k \<noteq> None}"
    using finite_set [of "List.map_filter c_cod_crm rs"] unfolding set_map_filter_cod .
  show ?thesis
    unfolding all_pharmacy_revenue_def groupby_sum_def k map_map
  proof (rule map_cong [OF refl])
    fix k
    assume "k \<in> set (sorted_list_of_set {k. pharmacy_total rs k \<noteq> None})"
    with fin have "pharmacy_total rs k \<noteq> None"
      by simp
    then show "((\<lambda>ks. \<lparr>cod_crm = fst ks, total_net1rev_imponibile = snd ks\<rparr>) \<circ>
                (\<lambda>k. (k, nan_sum (map c_revenue (filter (\<lambda>r. c_cod_crm r = Some k) rs))))) k
               = \<lparr>cod_crm = k, total_net1rev_imponibile = the (pharmacy_total rs k)\<rparr>"
      by (simp add: pharmacy_total_def split: if_splits)
  qed
qed

lemma all_pharmacy_revenue_cong:
  "pharmacy_total rs = pharmacy_total rs' \<Longrightarrow> all_pharmacy_revenue rs = all_pharmacy_revenue rs'"
  by (simp add: all_pharmacy_revenue_by_total)

lemma engine_Inr:
  "engine thr m = Inr out \<Longrightarrow>
     classification out =
       (assign_categories thr (all_pharmacy_revenue (rows m)),
        category_table_pivot (assign_categories thr (all_pharmacy_revenue (rows m))),
        summary_table (assign_categories thr (all_pharmacy_revenue (rows m))))"
  by (auto simp: engine_def bind_err_Inr aggregator_def classification_def Let_def
           split: if_splits)

lemma pharmacy_total_relabel:
  "pharmacy_total (map (\<lambda>r. r\<lparr>c_tier := f r, c_brand := g r\<rparr>) rs) = pharmacy_total rs"
  by (rule ext) (simp add: pharmacy_total_def filter_map o_def image_image)

lemma bind_err_map_sum:
  "bind_err (map_sum id g m) k = bind_err m (\<lambda>x. k (g x))"
  by (cases m) (simp_all add: bind_err_def)

lemma map_sum_bind_err:
  "map_sum id g (bind_err m k) = bind_err m (\<lambda>x. map_sum id g (k x))"
  by (cases m) (simp_all add: bind_err_def)

lemma filters_relabel: "filters ui (relabel f g df) = filters ui df"
  by (simp add: filters_def multiselect_def relabel_def o_def)

lemma apply_filter_relabel:
  assumes "\<And>r. cell (r\<lparr>c_tier := f r, c_brand := g r\<rparr>) = cell r"
  shows "apply_filter name bound c cell (relabel f g df)
           = map_sum id (relabel f g) (apply_filter name bound c cell df)"
  by (simp add: apply_filter_def isin_rows_def relabel_def filter_map o_def assms
           split: option.splits)

lemma df_filtered_relabel:
  "df_filtered fv (relabel f g df) = map_sum id (relabel f g) (df_filtered fv df)"
  by (simp add: df_filtered_def apply_filter_relabel bind_err_map_sum map_sum_bind_err)

lemma eligible_relabel: "eligible (r\<lparr>c_tier := a, c_brand := b\<rparr>) = eligible r"
  by (simp add: eligible_def)

lemma merged_pharmacies_relabel:
  "merged_pharmacies (relabel f g d) = map_sum id (relabel f g) (merged_pharmacies d)"
  by (simp add: merged_pharmacies_def relabel_def filter_map o_def eligible_relabel)

lemma record_filter_relabel:
  "record_filter ui (relabel f g df) = map_sum id (relabel f g) (record_filter ui df)"
  by (simp add: record_filter_def filters_relabel df_filtered_relabel merged_pharmacies_relabel
        bind_err_map_sum map_sum_bind_err)

lemma engine_relabel:
  "map_sum id classification (engine thr (relabel f g m)) = map_sum id classification (engine thr m)"
proof -
  have a: "all_pharmacy_revenue (rows (relabel f g m)) = all_pharmacy_revenue (rows m)"
    by (simp add: relabel_def all_pharmacy_revenue_cong [OF pharmacy_total_relabel])
  show ?thesis
    using a
    by (simp add: engine_def aggregator_def bind_err_def classification_def Let_def relabel_def)
qed

lemma set_map_filter: "set (List.map_filter f xs) = {y. \<exists>x \<in> set xs. f x = Some y}"
  by (force simp: List.map_filter_def)

lemma set_tier_counts:
  "set (tier_counts rs) = {(k, t, distinct_products rs k t) | k t. occurs rs k t}"
  by (auto simp: tier_counts_def groupby_keys_def set_map_filter occurs_def distinct_products_def)

lemma map_of_function_of_key:
  assumes "\<And>a b. (a, b) \<in> set xs \<Longrightarrow> b = F a"
  shows "map_of xs a = (if a \<in> fst ` set xs then Some (F a) else None)"
proof (cases "map_of xs a")
  case None
  then show ?thesis by (simp add: map_of_eq_None_iff)
next
  case (Some b)
  then have "(a, b) \<in> set xs" by (rule map_of_SomeD)
  with assms [of a b] Some show ?thesis by force
qed

lemma lookup_tier_counts:
  "map_of (map (\<lambda>e. ((fst e, fst (snd e)), snd (snd e))) (tier_counts rs)) (k, t)
     = (if occurs rs k t then Some (distinct_products rs k t) else None)"
proof -
  have "map_of (map (\<lambda>e. ((fst e, fst (snd e)), snd (snd e))) (tier_counts rs)) (k, t)
     = (if (k, t) \<in> fst ` set (map (\<lambda>e. ((fst e, fst (snd e)), snd (snd e))) (tier_counts rs))
        then Some ((\<lambda>kt. distinct_products rs (fst kt) (snd kt)) (k, t)) else None)"
    by (rule map_of_function_of_key) (auto simp: set_tier_counts)
  also have "(k, t) \<in> fst ` set (map (\<lambda>e. ((fst e, fst (snd e)), snd (snd e))) (tier_counts rs))
               \<longleftrightarrow> occurs rs k t"
    by (force simp: set_tier_counts image_iff)
  finally show ?thesis by simp
qed

lemma set_pivot_columns:
  "set (pivot_columns (tier_counts rs)) = {t. \<exists>k. occurs rs k t}"
  by (force simp: pivot_columns_def set_tier_counts image_iff)

lemma no_row_no_product: "\<not> occurs rs k t \<Longrightarrow> distinct_products rs k t = 0"
  by (simp add: occurs_def distinct_products_def nunique_def List.map_filter_def
        filter_empty_conv)

lemma map_of_pivot:
  "map_of (tier_counts_pivot_use rs) k
     = (if \<exists>t. occurs rs k t
        then Some (map (\<lambda>t. (t, distinct_products rs k t)) (pivot_columns (tier_counts rs)))
        else None)"
proof -
  have idx: "k \<in> set (sort (remdups (map fst (tier_counts rs)))) \<longleftrightarrow> (\<exists>t. occurs rs k t)"
    by (force simp: set_tier_counts image_iff)
  have cell: "fillna0 (map_of (map (\<lambda>e. ((fst e, fst (snd e)), snd (snd e))) (tier_counts rs)) (k, t))
                = distinct_products rs k t" for t
    by (simp add: lookup_tier_counts fillna0_def no_row_no_product)
  show ?thesis
    unfolding tier_counts_pivot_use_def Let_def
    by (simp add: map_of_map_restrict restrict_map_def idx cell del: set_sort set_remdups)
qed

lemma map_of_cells:
  "map_of (map (\<lambda>t. (t, F t)) cols) t = (if t \<in> set cols then Some (F t) else None)"
  by (simp add: map_of_map_restrict restrict_map_def)

text \<open>
  What the column "Tier 2 \& 3" holds, for every pharmacy of \<open>threshold_data\<close>: the sum of
  its tier 2 and tier 3 counts when the pharmacy has a row with a tier label, or when no
  pharmacy has a tier 2 or tier 3 row; NaN otherwise.
\<close>

lemma tier_2_and_3_characterised:
  assumes "p \<in> set (threshold_data rs)"
  shows "tier_2_and_3 p =
           (if (\<exists>t. occurs rs (cod_crm p) t)
               \<or> (\<forall>k. \<not> occurs rs k ''Tier 2'' \<and> \<not> occurs rs k ''Tier 3'')
            then Some (distinct_products rs (cod_crm p) ''Tier 2''
                       + distinct_products rs (cod_crm p) ''Tier 3'')
            else None)"
proof -
  define k where "k = cod_crm p"
  define cells where
    "cells = merge_left_tiers (pivot_columns (tier_counts rs)) (tier_counts_pivot_use rs) k"
  from assms have v: "tier_2_and_3 p = nan_add (get_col cells ''Tier 2'' 0) (get_col cells ''Tier 3'' 0)"
    by (auto simp: threshold_data_def Let_def k_def cells_def)
  have g: "get_col cells t 0 =
             (if \<exists>t'. occurs rs k t' then Some (distinct_products rs k t)
              else if \<exists>k'. occurs rs k' t then None else Some 0)" for t
  proof (cases "\<exists>t'. occurs rs k t'")
    case True
    then have "cells = map (\<lambda>t. (t, Some (distinct_products rs k t))) (pivot_columns (tier_counts rs))"
      by (simp add: cells_def merge_left_tiers_def map_of_pivot o_def)
    then have "get_col cells t 0 =
                 (if \<exists>k'. occurs rs k' t then Some (distinct_products rs k t) else Some 0)"
      by (simp add: get_col_def map_of_cells set_pivot_columns)
    moreover have "distinct_products rs k t = 0" if "\<not> (\<exists>k'. occurs rs k' t)"
      using that by (simp add: no_row_no_product)
    ultimately show ?thesis using True by auto
  next
    case False
    then have "cells = map (\<lambda>t. (t, None)) (pivot_columns (tier_counts rs))"
      by (simp add: cells_def merge_left_tiers_def map_of_pivot)
    then show ?thesis using False
      by (simp add: get_col_def map_of_cells set_pivot_columns)
  qed
  have z: "distinct_products rs k t = 0" if "\<forall>k'. \<not> occurs rs k' t" for t
    using that by (simp add: no_row_no_product)
  show ?thesis
    unfolding v g k_def [symmetric]
    by (auto simp: nan_add_def z)
qed

text \<open>
  Claim C7 says that "Tier 2 \& 3" is the tier 2 count plus the tier 3 count, an absent
  combination counting 0. The pivot is zero-filled before the left merge, not after it:
  a pharmacy none of whose rows carries a tier label has no row in the pivot, the merge
  gives it NaN in every tier column, and its "Tier 2 \& 3" is NaN although its two counts
  are 0. Here pharmacy 3 is such a pharmacy, next to pharmacy 1 with one tier 2 product.
\<close>

theorem unlabelled_pharmacy_gets_nan:
  "(case compute no_selection default_thresholds example_unlabelled of
      Inl e \<Rightarrow> False
    | Inr out \<Rightarrow>
        map (\<lambda>p. (cod_crm p, tier_cells p, tier_2_and_3 p)) (out_threshold_data out)
          = [(1, [(''Tier 2'', Some 1)], Some 1), (3, [(''Tier 2'', None)], None)])
   \<and> distinct_products (rows example_unlabelled) 3 ''Tier 2'' = 0
   \<and> distinct_products (rows example_unlabelled) 3 ''Tier 3'' = 0
   \<and> map (\<lambda>p. (cod_crm p, tier_2_and_3 p)) (threshold_data (rows example_unlabelled))
       = [(1, Some 1), (3, None)]"
  by code_simp

text \<open>
  Claim C10. For every input table and threshold configuration, the classified aggregate,
  the category table and the summary table depend on the filtered rows only through the
  total revenue of each pharmacy: two filtered tables with the same total per pharmacy
  give the same three tables; each pharmacy's category is that of the last matching rule
  at its total; and replacing the tier labels and the brand identifiers of the uploaded
  table by any others changes neither the three tables nor whether the run fails, in
  either script.
\<close>

theorem classification_depends_on_totals_only:
  "(pharmacy_total (rows m1) = pharmacy_total (rows m2)
      \<and> engine thr m1 = Inr out1 \<and> engine thr m2 = Inr out2
      \<longrightarrow> classification out1 = classification out2)
   \<and> (engine thr m = Inr out \<longrightarrow>
        out_all_pharmacy_revenue out
          = map (\<lambda>k. \<lparr>cod_crm = k,
                       total_net1rev_imponibile = the (pharmacy_total (rows m) k),
                       partnership_category
                         = last_matching_rule thr (the (pharmacy_total (rows m) k))\<rparr>)
              (sorted_list_of_set {k. pharmacy_total (rows m) k \<noteq> None}))
   \<and> map_sum id classification (compute ui thr (relabel f g df))
       = map_sum id classification (compute ui thr df)
   \<and> map_sum id classification (simulation_compute thr (relabel f g df))
       = map_sum id classification (simulation_compute thr df)"
proof -
  have p1: "classification out1 = classification out2"
    if "pharmacy_total (rows m1) = pharmacy_total (rows m2)"
       "engine thr m1 = Inr out1" "engine thr m2 = Inr out2"
    using engine_Inr [OF that(2)] engine_Inr [OF that(3)]
          all_pharmacy_revenue_cong [OF that(1)]
    by simp
  have p2: "out_all_pharmacy_revenue out
          = map (\<lambda>k. \<lparr>cod_crm = k,
                       total_net1rev_imponibile = the (pharmacy_total (rows m) k),
                       partnership_category
                         = last_matching_rule thr (the (pharmacy_total (rows m) k))\<rparr>)
              (sorted_list_of_set {k. pharmacy_total (rows m) k \<noteq> None})"
    if "engine thr m = Inr out"
    using engine_Inr [OF that]
    by (simp add: classification_def assign_categories_map last_matching_rule_cases
          all_pharmacy_revenue_by_total o_def)
  have p3: "map_sum id classification (compute ui thr (relabel f g df))
       = map_sum id classification (compute ui thr df)"
    by (simp add: compute_def record_filter_relabel bind_err_map_sum map_sum_bind_err
          engine_relabel)
  have p4: "map_sum id classification (simulation_compute thr (relabel f g df))
       = map_sum id classification (simulation_compute thr df)"
    by (simp add: simulation_compute_def merged_pharmacies_relabel bind_err_map_sum
          map_sum_bind_err engine_relabel)
  show ?thesis using p1 p2 p3 p4 by blast
qed

theorem classification_depends_on_totals_only_witness:
  "pharmacy_total (rows example_filtered) = pharmacy_total (rows example_other_labels)
   \<and> \<not> isl (engine default_thresholds example_filtered)
   \<and> \<not> isl (engine default_thresholds example_other_labels)
   \<and> classification (projr (engine default_thresholds example_filtered))
       = classification (projr (engine default_thresholds example_other_labels))
   \<and> map partnership_category
        (out_all_pharmacy_revenue (projr (engine default_thresholds example_filtered)))
       = [Gold, Platinum, Unassigned, Gold]
   \<and> map tier_2_and_3 (out_threshold_data (projr (engine default_thresholds example_filtered)))
       \<noteq> map tier_2_and_3
            (out_threshold_data (projr (engine default_thresholds example_other_labels)))"
proof -
  have t: "pharmacy_total (rows example_filtered) = pharmacy_total (rows example_other_labels)"
    by (rule ext)
       (simp add: pharmacy_total_def example_filtered_def example_other_labels_def
          example_rows_def sale_def eligible_def nan_sum_def List.map_filter_def)
  have r1: "\<not> isl (engine default_thresholds example_filtered)"
    by code_simp
  have r2: "\<not> isl (engine default_thresholds example_other_labels)"
    by code_simp
  have e1: "engine default_thresholds example_filtered
              = Inr (projr (engine default_thresholds example_filtered))"
    using r1 by simp
  have e2: "engine default_thresholds example_other_labels
              = Inr (projr (engine default_thresholds example_other_labels))"
    using r2 by simp
  have c: "map partnership_category
        (out_all_pharmacy_revenue (projr (engine default_thresholds example_filtered)))
       = [Gold, Platinum, Unassigned, Gold]"
    by code_simp
  have d1: "map tier_2_and_3 (out_threshold_data (projr (engine default_thresholds example_filtered)))
       = [Some 2, Some 0, None, Some 1]"
    by code_simp
  have d2: "map tier_2_and_3
              (out_threshold_data (projr (engine default_thresholds example_other_labels)))
       = [Some 0, Some 1, Some 1, Some 0]"
    by code_simp
  from classification_depends_on_totals_only
         [of example_filtered example_other_labels default_thresholds
             "projr (engine default_thresholds example_filtered)"
             "projr (engine default_thresholds example_other_labels)"
             example_filtered "projr (engine default_thresholds example_filtered)"]
       t r1 r2 e1 e2 c d1 d2
  show ?thesis by simp
qed

end
